theory Spec2Isabelle
  imports Complex_Main "HOL-Library.Word" "HOL-Library.Sublist"
    "HOL-Library.Char_ord" "HOL-Library.List_Lexorder"
begin

section \<open>Strings of the host language\<close>

text \<open>
  A JavaScript string is modelled as a \<^typ>\<open>string\<close>: a list of code units, here the
  code units below 256 (ASCII and Latin-1). White space is what the regular expression
  class \<^verbatim>\<open>\s\<close> and \<^verbatim>\<open>String.prototype.trim\<close> accept in that range: TAB, LF, VT, FF,
  CR, SPACE and NBSP.
\<close>

definition isSpace :: "char \<Rightarrow> bool" where
  "isSpace c = (c \<in> set [CHR 0x09, CHR 0x0A, CHR 0x0B, CHR 0x0C, CHR 0x0D, CHR '' '', CHR 0xA0])"

definition isDigit :: "char \<Rightarrow> bool" where
  "isDigit c = (c \<in> set ''0123456789'')"

definition trim :: "string \<Rightarrow> string" where
  "trim s = rev (dropWhile isSpace (rev (dropWhile isSpace s)))"

text \<open>\<^verbatim>\<open>s.replace(/\s+/g, " ")\<close>: every maximal run of white space becomes one space.
  The flag says that the previous code unit was white space already.\<close>

fun collapseFrom :: "bool \<Rightarrow> string \<Rightarrow> string" where
  "collapseFrom inRun [] = []"
| "collapseFrom inRun (c # cs) =
     (if isSpace c then (if inRun then collapseFrom True cs else CHR '' '' # collapseFrom True cs)
      else c # collapseFrom False cs)"

definition collapseSpaces :: "string \<Rightarrow> string" where
  "collapseSpaces s = collapseFrom False s"

text \<open>\<^verbatim>\<open>toLowerCase\<close> on code units below 256: A-Z and the Latin-1 capitals
  (192-222 without the multiplication sign 215) move up by 32.\<close>

definition toLowerChar :: "char \<Rightarrow> char" where
  "toLowerChar c =
     (let n = (of_char c :: nat)
      in if (65 \<le> n \<and> n \<le> 90) \<or> (192 \<le> n \<and> n \<le> 222 \<and> n \<noteq> 215) then char_of (n + 32) else c)"

definition toLowerCase :: "string \<Rightarrow> string" where
  "toLowerCase s = map toLowerChar s"

text \<open>\<^verbatim>\<open>toUpperCase\<close> on code units below 256: a-z and the Latin-1 small letters
  (224-254 without the division sign 247) move down by 32 and the sharp s (223) becomes
  \<^verbatim>\<open>SS\<close>. The micro sign and the y with diaeresis have capitals above 255; they are
  left as they are, which matters to no comparison with an ASCII word.\<close>

definition toUpperChar :: "char \<Rightarrow> string" where
  "toUpperChar c =
     (let n = (of_char c :: nat)
      in if (97 \<le> n \<and> n \<le> 122) \<or> (224 \<le> n \<and> n \<le> 254 \<and> n \<noteq> 247) then [char_of (n - 32)]
         else if n = 223 then ''SS'' else [c])"

definition toUpperCase :: "string \<Rightarrow> string" where
  "toUpperCase s = concat (map toUpperChar s)"

text \<open>\<^verbatim>\<open>s.includes(needle)\<close>: the needle occurs in \<open>s\<close> as a contiguous substring.\<close>

fun includesStr :: "string \<Rightarrow> string \<Rightarrow> bool" where
  "includesStr [] needle = (needle = [])"
| "includesStr (c # cs) needle = (prefix needle (c # cs) \<or> includesStr cs needle)"

definition normalizeText :: "string \<Rightarrow> string" where
  "normalizeText v = toLowerCase (trim (collapseSpaces v))"


section \<open>Data model\<close>

datatype Direction = Debit | Credit | Neutral

text \<open>A JavaScript number is modelled as an exact rational: the decimal amounts of a
  statement and their sums are computed without the rounding of binary floating point.\<close>

type_synonym number = rat

text \<open>\<^verbatim>\<open>Omit<NormalizedTransaction, "category" | "categoryReason">\<close> and its extension by the
  two fields the categorization engine assigns.\<close>

record BaseTransaction =
  id_tx :: string
  date :: string
  accountId :: string
  narrative :: string
  narrativeNormalized :: string
  merchant :: string
  debitAmount :: number
  creditAmount :: number
  amount :: number
  direction :: Direction
  balance :: "number option"
  sourceCategory :: string

record NormalizedTransaction = BaseTransaction +
  category :: string
  categoryReason :: string

text \<open>The two configuration files. An object is the list of its entries in the order in
  which \<^verbatim>\<open>Object.entries\<close> enumerates them: for keys that are not array indices, the order
  of declaration. An absent member is \<open>None\<close>.\<close>

record CategoryRulesFile =
  rules :: "(string \<times> string list) list option"

record OverridesFile =
  overrides :: "(string \<times> string) list option"
  narrative_contains :: "(string \<times> string) list option"

record Categorization =
  category_c :: string
  reason_c :: string

record RuleEntry =
  category_e :: string
  needles_e :: "string list"

text \<open>The three tables \<^verbatim>\<open>buildCategoryMatcher\<close> computes once and its closure
  \<^verbatim>\<open>categoryFor\<close> reads.\<close>

record Matcher =
  overridesById :: "(string \<times> string) list"
  narrativeOverrides :: "(string \<times> string) list"
  ruleEntries :: "RuleEntry list"


section \<open>Categorization engine\<close>

definition buildCategoryMatcher :: "CategoryRulesFile \<Rightarrow> OverridesFile \<Rightarrow> Matcher" where
  "buildCategoryMatcher rulesFile overridesFile =
     \<lparr> overridesById =
         map (\<lambda>(i, c). (trim i, trim c)) (case overrides overridesFile of None \<Rightarrow> [] | Some es \<Rightarrow> es),
       narrativeOverrides =
         map (\<lambda>(needle, c). (normalizeText needle, trim c))
           (case narrative_contains overridesFile of None \<Rightarrow> [] | Some es \<Rightarrow> es),
       ruleEntries =
         map (\<lambda>(c, needles). \<lparr> category_e = c, needles_e = map normalizeText needles \<rparr>)
           (case rules rulesFile of None \<Rightarrow> [] | Some es \<Rightarrow> es) \<rparr>"

text \<open>The \<^verbatim>\<open>for\<close> loop over the rule entries. \<^verbatim>\<open>if (matchedNeedle)\<close> tests the found
  string for truthiness: \<^verbatim>\<open>undefined\<close> (nothing found) and the empty string both fail it,
  and the loop goes on with the next entry.\<close>

fun matchRules :: "string \<Rightarrow> RuleEntry list \<Rightarrow> Categorization option" where
  "matchRules nn [] = None"
| "matchRules nn (entry # entries) =
     (case find (\<lambda>needle. includesStr nn needle) (needles_e entry) of
        Some matchedNeedle \<Rightarrow>
          if matchedNeedle \<noteq> []
          then Some \<lparr> category_c = category_e entry, reason_c = ''rule:'' @ matchedNeedle \<rparr>
          else matchRules nn entries
      | None \<Rightarrow> matchRules nn entries)"

definition categoryFor :: "Matcher \<Rightarrow> 'a BaseTransaction_scheme \<Rightarrow> Categorization" where
  "categoryFor m transaction =
     (case find (\<lambda>(i, c). i = id_tx transaction) (overridesById m) of
        Some idOverride \<Rightarrow> \<lparr> category_c = snd idOverride, reason_c = ''override:id'' \<rparr>
      | None \<Rightarrow>
        (case find (\<lambda>(needle, c). includesStr (narrativeNormalized transaction) needle)
                (narrativeOverrides m) of
           Some narrativeOverride \<Rightarrow>
             \<lparr> category_c = snd narrativeOverride,
               reason_c = ''override:narrative:'' @ fst narrativeOverride \<rparr>
         | None \<Rightarrow>
           (case matchRules (narrativeNormalized transaction) (ruleEntries m) of
              Some r \<Rightarrow> r
            | None \<Rightarrow>
                if direction transaction = Credit
                then \<lparr> category_c = ''Income'', reason_c = ''fallback:credit'' \<rparr>
                else if toUpperCase (sourceCategory transaction) = ''INT''
                then \<lparr> category_c = ''Interest'', reason_c = ''fallback:sourceCategory=INT'' \<rparr>
                else \<lparr> category_c = ''Uncategorized'', reason_c = ''fallback:uncategorized'' \<rparr>)))"

section \<open>Numbers as text, text as numbers\<close>

definition digitChar :: "nat \<Rightarrow> char" where
  "digitChar n = ''0123456789abcdef'' ! (n mod 16)"

fun showNat :: "nat \<Rightarrow> string" where
  "showNat n = (if n < 10 then [digitChar n] else showNat (n div 10) @ [digitChar (n mod 10)])"

declare showNat.simps [simp del]

fun showHex :: "nat \<Rightarrow> string" where
  "showHex n = (if n < 16 then [digitChar n] else showHex (n div 16) @ [digitChar (n mod 16)])"

declare showHex.simps [simp del]

text \<open>\<^verbatim>\<open>String(n)\<close> for an integer \<open>n\<close> (the decimal digits, which is what JavaScript
  prints below \<open>10\<^sup>2\<^sup>1\<close>).\<close>

definition showInt :: "int \<Rightarrow> string" where
  "showInt i = (if i < 0 then ''-'' @ showNat (nat (- i)) else showNat (nat i))"

definition padStart :: "nat \<Rightarrow> char \<Rightarrow> string \<Rightarrow> string" where
  "padStart n c s = replicate (n - length s) c @ s"

text \<open>\<^verbatim>\<open>x.toFixed(2)\<close>: the sign is split off, the magnitude is rounded to the nearest
  hundredth (a tie goes to the larger one), and printed with two decimals.\<close>

definition cents :: "number \<Rightarrow> int" where
  "cents x = \<lfloor>\<bar>x\<bar> * 100 + 1 / 2\<rfloor>"

definition toFixed2 :: "number \<Rightarrow> string" where
  "toFixed2 x =
     (if x < 0 then ''-'' else []) @ showNat (nat (cents x div 100)) @ ''.''
       @ padStart 2 CHR ''0'' (showNat (nat (cents x mod 100)))"

text \<open>\<^verbatim>\<open>Number(x.toFixed(2))\<close>.\<close>

definition round2 :: "number \<Rightarrow> number" where
  "round2 x = (if x < 0 then - (of_int (cents x) / 100) else of_int (cents x) / 100)"

definition digitsVal :: "string \<Rightarrow> nat" where
  "digitsVal ds = foldl (\<lambda>a c. 10 * a + (of_char c - 48)) 0 ds"

text \<open>\<^verbatim>\<open>Number.parseInt(s, 10)\<close>: leading white space, an optional sign, then the longest
  run of digits; \<open>None\<close> is \<^verbatim>\<open>NaN\<close>, the result when there is no digit.\<close>

definition parseInt :: "string \<Rightarrow> int option" where
  "parseInt s =
     (let t = dropWhile isSpace s;
          neg = (t \<noteq> [] \<and> hd t = CHR ''-'');
          r = (if t \<noteq> [] \<and> (hd t = CHR ''-'' \<or> hd t = CHR ''+'') then tl t else t);
          ds = takeWhile isDigit r
      in if ds = [] then None
         else Some (if neg then - int (digitsVal ds) else int (digitsVal ds)))"

datatype parsed = Num number | Infinity | NaN

text \<open>\<^verbatim>\<open>Number.parseFloat(s)\<close>: leading white space, an optional sign, then the longest
  prefix that is a decimal literal: \<^verbatim>\<open>Infinity\<close>, or digits with an optional fraction, or a
  fraction alone, and an exponent when digits follow the \<^verbatim>\<open>e\<close>. The value is exact here;
  JavaScript rounds it to the nearest double.\<close>

definition parseExponent :: "string \<Rightarrow> int" where
  "parseExponent r =
     (if r \<noteq> [] \<and> (hd r = CHR ''e'' \<or> hd r = CHR ''E'') then
        (let e = tl r;
             neg = (e \<noteq> [] \<and> hd e = CHR ''-'');
             es = takeWhile isDigit (if e \<noteq> [] \<and> (hd e = CHR ''-'' \<or> hd e = CHR ''+'') then tl e else e)
         in if es = [] then 0 else if neg then - int (digitsVal es) else int (digitsVal es))
      else 0)"

definition scale10 :: "number \<Rightarrow> int \<Rightarrow> number" where
  "scale10 x e = (if e < 0 then x / 10 ^ nat (- e) else x * 10 ^ nat e)"

definition parseFloat :: "string \<Rightarrow> parsed" where
  "parseFloat s =
     (let t = dropWhile isSpace s;
          neg = (t \<noteq> [] \<and> hd t = CHR ''-'');
          r = (if t \<noteq> [] \<and> (hd t = CHR ''-'' \<or> hd t = CHR ''+'') then tl t else t)
      in if prefix ''Infinity'' r then Infinity
         else
           (let ip = takeWhile isDigit r;
                r1 = dropWhile isDigit r;
                hasDot = (r1 \<noteq> [] \<and> hd r1 = CHR ''.'');
                fp = (if hasDot then takeWhile isDigit (tl r1) else []);
                r2 = (if hasDot then dropWhile isDigit (tl r1) else r1)
            in if ip = [] \<and> fp = [] then NaN
               else
                 (let m = scale10 (of_nat (digitsVal ip) + of_nat (digitsVal fp) / 10 ^ length fp)
                            (parseExponent r2)
                  in Num (if neg then - m else m))))"


section \<open>Transaction normalizer\<close>

text \<open>A row as the schema \<^verbatim>\<open>bankRowSchema\<close> admits it: three required strings and five
  optional ones (\<open>None\<close> is \<^verbatim>\<open>undefined\<close>).\<close>

record BankRow =
  BankAccount :: string
  Date :: string
  Narrative :: string
  DebitAmount :: "string option"
  CreditAmount :: "string option"
  Balance :: "string option"
  Categories :: "string option"
  Serial :: "string option"

text \<open>\<^verbatim>\<open>Number.isFinite(numeric) ? numeric : 0\<close> keeps a number and turns \<^verbatim>\<open>NaN\<close> and the
  infinities into 0. The function has no \<^verbatim>\<open>throw\<close>, so its result type has no error.\<close>

definition parseMoney :: "string option \<Rightarrow> number" where
  "parseMoney v =
     (case v of
        None \<Rightarrow> 0
      | Some val \<Rightarrow>
          if val = [] then 0
          else
            (let cleaned = trim (filter (\<lambda>c. \<not> (c = CHR ''$'' \<or> c = CHR '','' \<or> isSpace c)) val)
             in if cleaned = [] then 0
                else (case parseFloat cleaned of Num numeric \<Rightarrow> numeric | _ \<Rightarrow> 0)))"

datatype error = UnsupportedDateFormat string | InvalidDateParts string

text \<open>\<^verbatim>\<open>s.split(sep)\<close> for a one-character separator: never an empty list.\<close>

fun splitOn :: "char \<Rightarrow> string \<Rightarrow> string list" where
  "splitOn sep [] = [[]]"
| "splitOn sep (c # cs) =
     (if c = sep then [] # splitOn sep cs
      else (case splitOn sep cs of p # ps \<Rightarrow> (c # p) # ps | [] \<Rightarrow> [[c]]))"

text \<open>Each \<^verbatim>\<open>throw new Error\<close> is an \<open>Inl\<close>. \<^verbatim>\<open>Number.isInteger\<close> fails on \<^verbatim>\<open>NaN\<close>: the
  integers of \<open>parseInt\<close> are exact here, as those of JavaScript are below \<open>2\<^sup>5\<^sup>3\<close> (a run
  of hundreds of digits, which JavaScript reads as infinity, is outside the model).\<close>

definition parseDate :: "string \<Rightarrow> error + string" where
  "parseDate dateValue =
     (case splitOn CHR ''/'' (trim dateValue) of
        [dayStr, monthStr, yearStr] \<Rightarrow>
          (case (parseInt dayStr, parseInt monthStr, parseInt yearStr) of
             (Some day, Some month, Some year) \<Rightarrow>
               Inr (padStart 4 CHR ''0'' (showInt year) @ ''-'' @ padStart 2 CHR ''0'' (showInt month)
                      @ ''-'' @ padStart 2 CHR ''0'' (showInt day))
           | _ \<Rightarrow> Inl (InvalidDateParts dateValue))
      | _ \<Rightarrow> Inl (UnsupportedDateFormat dateValue))"

text \<open>The prefix patterns of \<^verbatim>\<open>inferMerchant\<close>. Each piece of a pattern consumes a prefix
  of the text and returns the rest, or fails. The patterns are anchored at the start and
  case-insensitive; a literal is written in capitals and compared with the capital of the
  text's letter. \<^verbatim>\<open>\s+\<close> and \<^verbatim>\<open>\d+\<close> take the longest run, which is the only way the
  pattern can match since what follows is never of the same class.\<close>

definition canon :: "char \<Rightarrow> char" where
  "canon c = (let n = (of_char c :: nat) in if 97 \<le> n \<and> n \<le> 122 then char_of (n - 32) else c)"

fun lit :: "string \<Rightarrow> string \<Rightarrow> string option" where
  "lit [] s = Some s"
| "lit (l # ls) [] = None"
| "lit (l # ls) (c # cs) = (if canon c = l then lit ls cs else None)"

definition one :: "(char \<Rightarrow> bool) \<Rightarrow> string \<Rightarrow> string option" where
  "one p s = (case s of [] \<Rightarrow> None | c # cs \<Rightarrow> if p c then Some cs else None)"

definition many1 :: "(char \<Rightarrow> bool) \<Rightarrow> string \<Rightarrow> string option" where
  "many1 p s = (if takeWhile p s = [] then None else Some (dropWhile p s))"

definition seqs :: "(string \<Rightarrow> string option) list \<Rightarrow> string \<Rightarrow> string option" where
  "seqs ps s = foldl (\<lambda>r p. Option.bind r p) (Some s) ps"

definition dashOrSpace :: "char \<Rightarrow> bool" where
  "dashOrSpace c = (c = CHR ''-'' \<or> isSpace c)"

definition depositOsko :: "string \<Rightarrow> string option" where
  "depositOsko = seqs [lit ''DEPOSIT'', one dashOrSpace, lit ''OSKO PAYMENT'',
                       many1 isSpace, many1 isDigit, many1 isSpace]"

definition withdrawalOsko :: "string \<Rightarrow> string option" where
  "withdrawalOsko = seqs [lit ''WITHDRAWAL'', one dashOrSpace, lit ''OSKO PAYMENT'',
                          many1 isSpace, many1 isDigit, many1 isSpace]"

definition withdrawalMobile :: "string \<Rightarrow> string option" where
  "withdrawalMobile = seqs [lit ''WITHDRAWAL MOBILE'', many1 isSpace, many1 isDigit,
                            many1 isSpace, lit ''TFR'', many1 isSpace]"

definition paymentByAuthority :: "string \<Rightarrow> string option" where
  "paymentByAuthority = seqs [lit ''PAYMENT BY AUTHORITY TO'', many1 isSpace]"

definition depositPrefix :: "string \<Rightarrow> string option" where
  "depositPrefix = seqs [lit ''DEPOSIT'', many1 isSpace]"

text \<open>\<^verbatim>\<open>s.replace(/^pattern/, "")\<close>.\<close>

definition stripPrefix :: "(string \<Rightarrow> string option) \<Rightarrow> string \<Rightarrow> string" where
  "stripPrefix pat s = (case pat s of Some rest \<Rightarrow> rest | None \<Rightarrow> s)"

definition inferMerchant :: "string \<Rightarrow> string" where
  "inferMerchant narr =
     (let cleaned =
            trim (stripPrefix depositPrefix (stripPrefix paymentByAuthority
              (stripPrefix withdrawalMobile (stripPrefix withdrawalOsko
                (stripPrefix depositOsko (collapseSpaces narr))))))
      in if cleaned \<noteq> [] then cleaned else trim narr)"

text \<open>The hash is kept in 32 bits by \<^verbatim>\<open>>>> 0\<close> after each step; the product and the sum
  stay below \<open>2\<^sup>5\<^sup>3\<close>, so the arithmetic of the source is exact and the step is the
  wrapping one of a 32-bit word.\<close>

definition hashString :: "string \<Rightarrow> string" where
  "hashString input =
     ''tx_'' @ padStart 8 CHR ''0''
       (showHex (unat (foldl (\<lambda>h c. h * 31 + of_nat (of_char c)) (0 :: 32 word) input)))"

definition joinBar :: "string list \<Rightarrow> string" where
  "joinBar xs = (case xs of [] \<Rightarrow> [] | y # ys \<Rightarrow> foldl (\<lambda>acc z. acc @ ''|'' @ z) y ys)"

definition baseTransaction :: "nat \<Rightarrow> BankRow \<Rightarrow> error + BaseTransaction" where
  "baseTransaction index row =
     (let debit = parseMoney (DebitAmount row);
          credit = parseMoney (CreditAmount row);
          amt = (if debit > 0 then debit else if credit > 0 then - credit else 0);
          dir = (if debit > 0 then Debit else if credit > 0 then Credit else Neutral);
          narr = trim (Narrative row);
          nn = normalizeText narr;
          idSignature = joinBar
            [trim (Date row), trim (BankAccount row), nn, toFixed2 debit, toFixed2 credit,
             (case Serial row of
                Some s \<Rightarrow> if trim s \<noteq> [] then trim s else showNat index
              | None \<Rightarrow> showNat index)]
      in case parseDate (Date row) of
           Inl e \<Rightarrow> Inl e
         | Inr d \<Rightarrow>
             Inr \<lparr> id_tx = hashString idSignature, date = d, accountId = trim (BankAccount row),
                   narrative = narr, narrativeNormalized = nn, merchant = inferMerchant narr,
                   debitAmount = debit, creditAmount = credit, amount = amt, direction = dir,
                   balance = (case Balance row of
                                Some b \<Rightarrow> if b \<noteq> [] then Some (parseMoney (Some b)) else None
                              | None \<Rightarrow> None),
                   sourceCategory = trim (case Categories row of Some c \<Rightarrow> c | None \<Rightarrow> []) \<rparr>)"

text \<open>\<^verbatim>\<open>rows.map((row, index) => ...)\<close>, stopping at the first row whose date throws.\<close>

fun normalizeFrom ::
  "nat \<Rightarrow> BankRow list \<Rightarrow> (BaseTransaction \<Rightarrow> Categorization) \<Rightarrow> error + NormalizedTransaction list"
where
  "normalizeFrom index [] catFor = Inr []"
| "normalizeFrom index (row # rows) catFor =
     (case baseTransaction index row of
        Inl e \<Rightarrow> Inl e
      | Inr b \<Rightarrow>
          (case normalizeFrom (Suc index) rows catFor of
             Inl e \<Rightarrow> Inl e
           | Inr ts \<Rightarrow>
               Inr (BaseTransaction.extend b
                      \<lparr> category = category_c (catFor b), categoryReason = reason_c (catFor b) \<rparr>
                    # ts)))"

definition normalizeTransactions ::
  "BankRow list \<Rightarrow> (BaseTransaction \<Rightarrow> Categorization) \<Rightarrow> error + NormalizedTransaction list"
where
  "normalizeTransactions rows catFor = normalizeFrom 0 rows catFor"

section \<open>Maps that keep insertion order\<close>

text \<open>A JavaScript \<^verbatim>\<open>Map\<close> enumerates its keys in the order of their first insertion, and
  \<^verbatim>\<open>set\<close> on a present key keeps its place: an association list with distinct keys.\<close>

fun mapSet :: "'k \<Rightarrow> 'v \<Rightarrow> ('k \<times> 'v) list \<Rightarrow> ('k \<times> 'v) list" where
  "mapSet k v [] = [(k, v)]"
| "mapSet k v ((k', v') # m) = (if k = k' then (k, v) # m else (k', v') # mapSet k v m)"

definition getOr0 :: "('k \<times> number) list \<Rightarrow> 'k \<Rightarrow> number" where
  "getOr0 m k = (case map_of m k of Some v \<Rightarrow> v | None \<Rightarrow> 0)"


section \<open>Spend flow-graph builder\<close>

record SankeyNode =
  name_n :: string

record SankeyLink =
  source_l :: nat
  target_l :: nat
  value_l :: number

record SankeySummary =
  totalSpend_s :: number
  transactionCount_s :: nat

record SankeyData =
  generatedAt :: string
  currency_s :: string
  nodes_s :: "SankeyNode list"
  links_s :: "SankeyLink list"
  summary_s :: SankeySummary

definition EXCLUDED_SPEND_CATEGORIES :: "string set" where
  "EXCLUDED_SPEND_CATEGORIES = {''Income'', ''Transfers''}"

definition spendTransactions :: "NormalizedTransaction list \<Rightarrow> NormalizedTransaction list" where
  "spendTransactions transactions =
     filter (\<lambda>t. direction t = Debit \<and> amount t > 0 \<and> category t \<notin> EXCLUDED_SPEND_CATEGORIES)
       transactions"

text \<open>One round of the aggregation loop. The inner map of a category is an object shared
  with the outer map, so the update of the inner map is an update of the outer entry.\<close>

definition addTotals ::
  "(string \<times> number) list \<times> (string \<times> (string \<times> number) list) list \<Rightarrow> NormalizedTransaction
     \<Rightarrow> (string \<times> number) list \<times> (string \<times> (string \<times> number) list) list"
where
  "addTotals st t =
     (let categoryTotals = mapSet (category t) (getOr0 (fst st) (category t) + amount t) (fst st);
          byCategory = (if map_of (snd st) (category t) = None
                        then mapSet (category t) [] (snd st) else snd st)
      in case map_of byCategory (category t) of
           None \<Rightarrow> (categoryTotals, byCategory)
         | Some merchantTotals \<Rightarrow>
             (categoryTotals,
              mapSet (category t)
                (mapSet (merchant t) (getOr0 merchantTotals (merchant t) + amount t) merchantTotals)
                byCategory))"

definition totalsOf ::
  "NormalizedTransaction list
     \<Rightarrow> (string \<times> number) list \<times> (string \<times> (string \<times> number) list) list"
where
  "totalsOf spend = foldl addTotals ([], []) spend"

text \<open>\<^verbatim>\<open>a.localeCompare(b)\<close> is modelled by the lexicographic order of the code units; the
  collation of the host may order letters of different case or accent otherwise. The keys
  of a map are distinct, so the sort is determined by the order of the keys.\<close>

definition sortByName :: "(string \<times> 'v) list \<Rightarrow> (string \<times> 'v) list" where
  "sortByName entries = sort_key fst entries"

definition pushNode :: "SankeyNode list \<times> (string \<times> nat) list \<Rightarrow> string
    \<Rightarrow> SankeyNode list \<times> (string \<times> nat) list" where
  "pushNode st nm = (fst st @ [\<lparr> name_n = nm \<rparr>], mapSet nm (length (fst st)) (snd st))"

definition pushNewNode :: "SankeyNode list \<times> (string \<times> nat) list \<Rightarrow> string
    \<Rightarrow> SankeyNode list \<times> (string \<times> nat) list" where
  "pushNewNode st nm = (if map_of (snd st) nm = None then pushNode st nm else st)"

text \<open>The nodes and the index of names: the root, then the categories in sorted order,
  then the merchants, met by walking the outer map and each inner map in the order of
  their keys.\<close>

definition buildNodes ::
  "(string \<times> number) list \<Rightarrow> (string \<times> (string \<times> number) list) list
     \<Rightarrow> SankeyNode list \<times> (string \<times> nat) list"
where
  "buildNodes categoryTotals byCategory =
     foldl (\<lambda>st (c, merchants). foldl pushNewNode st (map fst merchants))
       (foldl pushNode ([\<lparr> name_n = ''Total Spend'' \<rparr>], [(''Total Spend'', 0)])
          (map fst (sortByName categoryTotals)))
       byCategory"

definition categoryLink :: "(string \<times> nat) list \<Rightarrow> string \<times> number \<Rightarrow> SankeyLink option" where
  "categoryLink nodeIndex e =
     (case (map_of nodeIndex ''Total Spend'', map_of nodeIndex (fst e)) of
        (Some src, Some tgt) \<Rightarrow> Some \<lparr> source_l = src, target_l = tgt, value_l = round2 (snd e) \<rparr>
      | _ \<Rightarrow> None)"

definition merchantLinks ::
  "(string \<times> nat) list \<Rightarrow> (string \<times> (string \<times> number) list) list \<Rightarrow> string \<Rightarrow> nat
     \<Rightarrow> SankeyLink list"
where
  "merchantLinks nodeIndex byCategory c tgt =
     (case map_of byCategory c of
        None \<Rightarrow> []
      | Some merchants \<Rightarrow>
          concat (map (\<lambda>(m, merchantTotal).
                    case map_of nodeIndex m of
                      None \<Rightarrow> []
                    | Some merchantIndex \<Rightarrow>
                        [\<lparr> source_l = tgt, target_l = merchantIndex, value_l = round2 merchantTotal \<rparr>])
                  (sortByName merchants)))"

definition buildLinks ::
  "(string \<times> nat) list \<Rightarrow> (string \<times> number) list \<Rightarrow> (string \<times> (string \<times> number) list) list
     \<Rightarrow> SankeyLink list"
where
  "buildLinks nodeIndex categoryTotals byCategory =
     concat (map (\<lambda>e. case categoryLink nodeIndex e of
                         None \<Rightarrow> []
                       | Some l \<Rightarrow> l # merchantLinks nodeIndex byCategory (fst e) (target_l l))
               (sortByName categoryTotals))"

text \<open>\<^verbatim>\<open>new Date().toISOString()\<close> reads the clock: the reading is an argument.\<close>

definition buildSankeyData :: "string \<Rightarrow> NormalizedTransaction list \<Rightarrow> SankeyData" where
  "buildSankeyData now transactions =
     (let spend = spendTransactions transactions;
          categoryTotals = fst (totalsOf spend);
          byCategory = snd (totalsOf spend);
          built = buildNodes categoryTotals byCategory;
          totalSpend = foldl (\<lambda>sum v. sum + v) 0 (map snd categoryTotals)
      in \<lparr> generatedAt = now,
            currency_s = ''AUD'',
            nodes_s = fst built,
            links_s = buildLinks (snd built) categoryTotals byCategory,
            summary_s = \<lparr> totalSpend_s = round2 totalSpend, transactionCount_s = length spend \<rparr> \<rparr>)"

section \<open>Income and outflow aggregator\<close>

record RawTransaction =
  id_r :: string
  date_r :: string
  accountId_r :: string
  merchant_r :: string
  narrative_r :: string
  amount_r :: number
  direction_r :: Direction
  category_r :: string
  categoryReason_r :: string

datatype NodeKind = IncomeNode | TotalNode | CategoryNode | SavingsNode

datatype LinkKind = IncomeLink | CategoryLink | SavingsLink

text \<open>The optional members of \<^verbatim>\<open>VizNode\<close> are options.\<close>

record VizNode =
  name_v :: string
  kind_v :: NodeKind
  color_v :: string
  value_v :: number
  percent_v :: "number option"
  labelMain_v :: "string option"
  labelSub_v :: "string option"

record VizLink =
  source_v :: nat
  target_v :: nat
  linkValue_v :: number
  linkColor_v :: string
  linkKind_v :: LinkKind

record VizData =
  nodes_v :: "VizNode list"
  links_v :: "VizLink list"

record AccountStat =
  source_a :: string
  total_a :: number
  percent_a :: number
  color_a :: string

record CategoryStat =
  category_o :: string
  total_o :: number
  percent_o :: number
  count_o :: nat
  color_o :: string

record BuildVizResult =
  sankey :: VizData
  totalIncome :: number
  totalSpend :: number
  savings :: number
  spendCount :: nat
  incomeStats :: "AccountStat list"
  categoryStats :: "CategoryStat list"
  outflowCount :: nat

definition EXCLUDED_CATEGORIES :: "string set" where
  "EXCLUDED_CATEGORIES = {''Transfers'', ''Income''}"

definition CATEGORY_COLORS :: "string list" where
  "CATEGORY_COLORS =
     [''#36b8ac'', ''#6b67f2'', ''#8f45e8'', ''#35bf72'', ''#8a62de'', ''#f48b2b'', ''#3d73e6'',
      ''#eb59a7'', ''#2ca2f6'', ''#ef5e4a'', ''#fc845b'', ''#8f9eb4'', ''#79c81d'', ''#d18f2f'']"

definition ACCOUNT_COLORS :: "string list" where
  "ACCOUNT_COLORS = [''#2f9ef6'', ''#4db7ff'', ''#18c5d5'']"

definition EMPTY_VIZ :: BuildVizResult where
  "EMPTY_VIZ =
     \<lparr> sankey = \<lparr> nodes_v = [], links_v = [] \<rparr>, totalIncome = 0, totalSpend = 0, savings = 0,
       spendCount = 0, incomeStats = [], categoryStats = [], outflowCount = 0 \<rparr>"

text \<open>\<^verbatim>\<open>Math.round(value * 100)\<close> rounds to the nearest integer, a tie upwards.\<close>

definition formatPercent :: "number \<Rightarrow> string" where
  "formatPercent v =
     (if v > 0 \<and> v < 1 / 100 then ''<1%'' else showInt \<lfloor>v * 100 + 1 / 2\<rfloor> @ ''%'')"

definition incomeTransactions :: "RawTransaction list \<Rightarrow> RawTransaction list" where
  "incomeTransactions transactions =
     (let categorized = filter (\<lambda>t. direction_r t = Credit \<and> amount_r t < 0 \<and> category_r t = ''Income'')
                          transactions;
          fallback = filter (\<lambda>t. direction_r t = Credit \<and> amount_r t < 0 \<and> category_r t \<noteq> ''Transfers'')
                       transactions
      in if length categorized > 0 then categorized else fallback)"

definition addIncome :: "(string \<times> number) list \<Rightarrow> RawTransaction \<Rightarrow> (string \<times> number) list" where
  "addIncome incomeBySource t =
     (let sourceName = (if merchant_r t \<noteq> [] then merchant_r t
                        else if narrative_r t \<noteq> [] then narrative_r t else ''Income'')
      in mapSet sourceName (getOr0 incomeBySource sourceName + \<bar>amount_r t\<bar>) incomeBySource)"

text \<open>\<^verbatim>\<open>sort((a, b) => b[1] - a[1])\<close>: descending by total, and stable.\<close>

definition compactIncomeSources :: "RawTransaction list \<Rightarrow> (string \<times> number) list" where
  "compactIncomeSources transactions =
     (let rawIncomeSources =
            sort_key (\<lambda>e. - snd e) (foldl addIncome [] (incomeTransactions transactions))
      in take 3 rawIncomeSources @
         (if length rawIncomeSources > 3 then
            (let otherTotal = foldl (\<lambda>sum e. sum + snd e) 0 (drop 3 rawIncomeSources)
             in if otherTotal > 0 then [(''Other Income'', otherTotal)] else [])
          else []))"

definition sumIncome :: "(string \<times> number) list \<Rightarrow> number" where
  "sumIncome sources = foldl (\<lambda>sum e. sum + snd e) 0 sources"

definition incomeStatsOf :: "(string \<times> number) list \<Rightarrow> AccountStat list" where
  "incomeStatsOf sources =
     map (\<lambda>(e, index).
            \<lparr> source_a = fst e, total_a = snd e,
              percent_a = (if sumIncome sources > 0 then snd e / sumIncome sources else 0),
              color_a = ACCOUNT_COLORS ! (index mod length ACCOUNT_COLORS) \<rparr>)
       (zip sources [0 ..< length sources])"

definition outflowTransactions :: "RawTransaction list \<Rightarrow> RawTransaction list" where
  "outflowTransactions transactions =
     filter (\<lambda>t. direction_r t = Debit \<and> amount_r t > 0 \<and> category_r t \<notin> EXCLUDED_CATEGORIES)
       transactions"

definition sumSpend :: "RawTransaction list \<Rightarrow> number" where
  "sumSpend spend = foldl (\<lambda>sum t. sum + amount_r t) 0 spend"

definition addCategory :: "(string \<times> number \<times> nat) list \<Rightarrow> RawTransaction \<Rightarrow> (string \<times> number \<times> nat) list"
where
  "addCategory categoryTotals t =
     (case map_of categoryTotals (category_r t) of
        Some existing \<Rightarrow>
          mapSet (category_r t) (fst existing + amount_r t, snd existing + 1) categoryTotals
      | None \<Rightarrow> mapSet (category_r t) (amount_r t, 1) categoryTotals)"

definition categoryStatsOf :: "RawTransaction list \<Rightarrow> CategoryStat list" where
  "categoryStatsOf spend =
     (let sorted = sort_key (\<lambda>e. - fst (snd e)) (foldl addCategory [] spend)
      in map (\<lambda>(e, index).
                \<lparr> category_o = fst e, total_o = fst (snd e),
                  percent_o = (if sumSpend spend > 0 then fst (snd e) / sumSpend spend else 0),
                  count_o = snd (snd e),
                  color_o = CATEGORY_COLORS ! (index mod length CATEGORY_COLORS) \<rparr>)
           (zip sorted [0 ..< length sorted]))"

definition outflowStatsOf :: "CategoryStat list \<Rightarrow> number \<Rightarrow> number \<Rightarrow> CategoryStat list" where
  "outflowStatsOf stats totalInc sav =
     stats @
     (if sav > 0 then
        [\<lparr> category_o = ''Savings'', total_o = sav,
           percent_o = (if totalInc > 0 then sav / totalInc else 0),
           count_o = 0, color_o = ''#49d3a2'' \<rparr>]
      else [])"

definition incomeNode :: "(number \<Rightarrow> string \<Rightarrow> string) \<Rightarrow> string \<Rightarrow> AccountStat \<Rightarrow> VizNode" where
  "incomeNode formatCurrency currency income =
     \<lparr> name_v = source_a income, kind_v = IncomeNode, color_v = color_a income,
       value_v = total_a income, percent_v = Some (percent_a income),
       labelMain_v = Some (source_a income),
       labelSub_v = Some (formatCurrency (total_a income) currency @ '' | ''
                            @ formatPercent (percent_a income)) \<rparr>"

definition totalNode :: "(number \<Rightarrow> string \<Rightarrow> string) \<Rightarrow> string \<Rightarrow> number \<Rightarrow> VizNode" where
  "totalNode formatCurrency currency totalInc =
     \<lparr> name_v = ''Total Income'', kind_v = TotalNode, color_v = ''#7f8b98'', value_v = totalInc,
       percent_v = Some 1, labelMain_v = Some ''Total Income'',
       labelSub_v = Some (formatCurrency totalInc currency) \<rparr>"

definition outflowNode ::
  "(number \<Rightarrow> string \<Rightarrow> string) \<Rightarrow> string \<Rightarrow> number \<Rightarrow> CategoryStat \<Rightarrow> VizNode" where
  "outflowNode formatCurrency currency totalInc outflow =
     \<lparr> name_v = category_o outflow,
       kind_v = (if category_o outflow = ''Savings'' then SavingsNode else CategoryNode),
       color_v = color_o outflow, value_v = total_o outflow,
       percent_v = Some (if totalInc > 0 then total_o outflow / totalInc else 0),
       labelMain_v = Some (category_o outflow),
       labelSub_v = Some (formatCurrency (total_o outflow) currency @ '' | ''
                            @ formatPercent (if totalInc > 0 then total_o outflow / totalInc else 0)) \<rparr>"

definition outflowKey :: "CategoryStat \<Rightarrow> string" where
  "outflowKey outflow =
     (if category_o outflow = ''Savings'' then ''savings:bucket''
      else ''category:'' @ category_o outflow)"

definition pushViz :: "VizNode list \<times> (string \<times> nat) list \<Rightarrow> string \<times> VizNode
    \<Rightarrow> VizNode list \<times> (string \<times> nat) list" where
  "pushViz st kn = (fst st @ [snd kn], mapSet (fst kn) (length (fst st)) (snd st))"

text \<open>The nodes with the index of their keys: the income sources, the hub, the outflows.\<close>

definition vizNodes ::
  "(number \<Rightarrow> string \<Rightarrow> string) \<Rightarrow> string \<Rightarrow> number \<Rightarrow> AccountStat list \<Rightarrow> CategoryStat list
     \<Rightarrow> VizNode list \<times> (string \<times> nat) list"
where
  "vizNodes formatCurrency currency totalInc incomes outflows =
     foldl pushViz
       (pushViz
          (foldl pushViz ([], [])
             (map (\<lambda>i. (''income:'' @ source_a i, incomeNode formatCurrency currency i)) incomes))
          (''total:income'', totalNode formatCurrency currency totalInc))
       (map (\<lambda>out. (outflowKey out, outflowNode formatCurrency currency totalInc out)) outflows)"

definition vizLinks :: "(string \<times> nat) list \<Rightarrow> nat \<Rightarrow> AccountStat list \<Rightarrow> CategoryStat list \<Rightarrow> VizLink list"
where
  "vizLinks nodeIndex totalNodeIndex incomes outflows =
     concat (map (\<lambda>income.
                    case map_of nodeIndex (''income:'' @ source_a income) of
                      None \<Rightarrow> []
                    | Some src \<Rightarrow>
                        [\<lparr> source_v = src, target_v = totalNodeIndex,
                           linkValue_v = round2 (total_a income), linkColor_v = color_a income,
                           linkKind_v = IncomeLink \<rparr>])
               incomes)
     @ concat (map (\<lambda>outflow.
                      case map_of nodeIndex (outflowKey outflow) of
                        None \<Rightarrow> []
                      | Some tgt \<Rightarrow>
                          [\<lparr> source_v = totalNodeIndex, target_v = tgt,
                             linkValue_v = round2 (total_o outflow), linkColor_v = color_o outflow,
                             linkKind_v = (if category_o outflow = ''Savings'' then SavingsLink
                                           else CategoryLink) \<rparr>])
                 outflows)"

text \<open>\<^verbatim>\<open>Intl.NumberFormat\<close> belongs to the host: \<open>formatCurrency\<close> is an argument.\<close>

definition buildVisualization ::
  "(number \<Rightarrow> string \<Rightarrow> string) \<Rightarrow> RawTransaction list \<Rightarrow> string \<Rightarrow> BuildVizResult" where
  "buildVisualization formatCurrency transactions currency =
     (let sources = compactIncomeSources transactions;
          totalInc = sumIncome sources;
          incomes = incomeStatsOf sources;
          spend = outflowTransactions transactions;
          totalSp = sumSpend spend;
          sav = max 0 (totalInc - totalSp);
          stats = categoryStatsOf spend;
          outflows = outflowStatsOf stats totalInc sav;
          built = vizNodes formatCurrency currency totalInc incomes outflows
      in case map_of (snd built) ''total:income'' of
           None \<Rightarrow> EMPTY_VIZ
         | Some totalNodeIndex \<Rightarrow>
             \<lparr> sankey = \<lparr> nodes_v = fst built,
                          links_v = vizLinks (snd built) totalNodeIndex incomes outflows \<rparr>,
               totalIncome = round2 totalInc,
               totalSpend = round2 totalSp,
               savings = round2 sav,
               spendCount = length spend,
               incomeStats = incomes,
               categoryStats = stats,
               outflowCount = length outflows \<rparr>)"

section \<open>Notions of the specification\<close>

text \<open>The chain of the specification, step 3 as it words it: the categories in the order of
  declaration, within a category the needles in the order of declaration, and the first
  needle that is a substring of the normalized narrative wins. The tables are those of the
  loaded configuration.\<close>

definition ruleNeedles :: "RuleEntry list \<Rightarrow> (string \<times> string) list" where
  "ruleNeedles entries = concat (map (\<lambda>e. map (\<lambda>needle. (category_e e, needle)) (needles_e e)) entries)"

definition spec_categoryFor :: "Matcher \<Rightarrow> 'a BaseTransaction_scheme \<Rightarrow> Categorization" where
  "spec_categoryFor m t =
     (case find (\<lambda>e. fst e = id_tx t) (overridesById m) of
        Some e \<Rightarrow> \<lparr> category_c = snd e, reason_c = ''override:id'' \<rparr>
      | None \<Rightarrow>
        (case find (\<lambda>e. includesStr (narrativeNormalized t) (fst e)) (narrativeOverrides m) of
           Some e \<Rightarrow> \<lparr> category_c = snd e, reason_c = ''override:narrative:'' @ fst e \<rparr>
         | None \<Rightarrow>
           (case find (\<lambda>e. includesStr (narrativeNormalized t) (snd e)) (ruleNeedles (ruleEntries m)) of
              Some e \<Rightarrow> \<lparr> category_c = fst e, reason_c = ''rule:'' @ snd e \<rparr>
            | None \<Rightarrow>
                if direction t = Credit
                then \<lparr> category_c = ''Income'', reason_c = ''fallback:credit'' \<rparr>
                else if toUpperCase (sourceCategory t) = ''INT''
                then \<lparr> category_c = ''Interest'', reason_c = ''fallback:sourceCategory=INT'' \<rparr>
                else \<lparr> category_c = ''Uncategorized'', reason_c = ''fallback:uncategorized'' \<rparr>)))"

text \<open>The distinct elements of a list in the order of their first occurrence.\<close>

primrec firstSeen :: "'a list \<Rightarrow> 'a list" where
  "firstSeen [] = []"
| "firstSeen (x # xs) = x # filter (\<lambda>y. y \<noteq> x) (firstSeen xs)"



text \<open>The links from the root to the categories: the link the builder pushes first in
  each round of its loop over the sorted categories.\<close>

definition categoryLinksOf :: "NormalizedTransaction list \<Rightarrow> SankeyLink list" where
  "categoryLinksOf transactions =
     (let spend = spendTransactions transactions;
          categoryTotals = fst (totalsOf spend);
          byCategory = snd (totalsOf spend)
      in List.map_filter (categoryLink (snd (buildNodes categoryTotals byCategory)))
           (sortByName categoryTotals))"





section \<open>Example inputs\<close>

text \<open>An example of the specification: a debit at Coles under the rule
  \<open>Groceries: [coles]\<close> is categorized \<open>Groceries\<close> with the reason \<open>rule:coles\<close>.\<close>

definition colesDebit :: BaseTransaction where
  "colesDebit =
     \<lparr> id_tx = ''tx_0badcafe'', date = ''2026-03-05'', accountId = ''123'',
       narrative = ''COLES 0931 SYDNEY'', narrativeNormalized = ''coles 0931 sydney'',
       merchant = ''COLES 0931 SYDNEY'', debitAmount = 45.2, creditAmount = 0, amount = 45.2,
       direction = Debit, balance = None, sourceCategory = [] \<rparr>"


definition noOverrides :: OverridesFile where
  "noOverrides = \<lparr> overrides = None, narrative_contains = None \<rparr>"

definition groceryRules :: CategoryRulesFile where
  "groceryRules = \<lparr> rules = Some [(''Groceries'', [''coles''])] \<rparr>"

text \<open>A rule file whose first needle is the empty string:
  \<^verbatim>\<open>rules: { Groceries: ["", "coles"] }\<close>.\<close>

definition emptyNeedleRules :: CategoryRulesFile where
  "emptyNeedleRules = \<lparr> rules = Some [(''Groceries'', [[], ''coles''])] \<rparr>"




text \<open>A row that carries both a debit and a credit amount.\<close>

definition bothAmountsRow :: BankRow where
  "bothAmountsRow =
     \<lparr> BankAccount = ''123'', Date = ''05/03/2026'', Narrative = ''COLES 0931 SYDNEY'',
       DebitAmount = Some ''10'', CreditAmount = Some ''5'', Balance = None,
       Categories = None, Serial = None \<rparr>"











section \<open>Properties\<close>

subsection \<open>Categorization engine\<close>

lemma find_split_pair: "find (\<lambda>(a, b). P a) xs = find (\<lambda>e. P (fst e)) xs"
  by (simp add: case_prod_unfold)

lemma find_rule_needles:
  "find (\<lambda>e. P (snd e)) (map (\<lambda>needle. (c, needle)) ns) = map_option (\<lambda>n. (c, n)) (find P ns)"
  by (induction ns) auto

lemma find_append_cases:
  "find P (xs @ ys) = (case find P xs of Some x \<Rightarrow> Some x | None \<Rightarrow> find P ys)"
  by (induction xs) auto

lemma find_Some_holds: "find P xs = Some x \<Longrightarrow> P x \<and> x \<in> set xs"
  by (induction xs) (auto split: if_splits)

text \<open>Where no needle of the loaded rules is empty, the loop over the rule entries finds the
  first needle, in the order of declaration, that the narrative contains.\<close>

lemma matchRules_first_needle:
  "\<forall>e \<in> set entries. [] \<notin> set (needles_e e) \<Longrightarrow>
   matchRules nn entries =
     map_option (\<lambda>e. \<lparr> category_c = fst e, reason_c = ''rule:'' @ snd e \<rparr>)
       (find (\<lambda>e. includesStr nn (snd e)) (ruleNeedles entries))"
proof (induction entries)
  case Nil
  show ?case by (simp add: ruleNeedles_def)
next
  case (Cons entry entries)
  have tail: "matchRules nn entries =
     map_option (\<lambda>e. \<lparr> category_c = fst e, reason_c = ''rule:'' @ snd e \<rparr>)
       (find (\<lambda>e. includesStr nn (snd e)) (ruleNeedles entries))"
    using Cons by simp
  have unfold: "ruleNeedles (entry # entries) =
      map (\<lambda>needle. (category_e entry, needle)) (needles_e entry) @ ruleNeedles entries"
    by (simp add: ruleNeedles_def)
  show ?case
  proof (cases "find (\<lambda>needle. includesStr nn needle) (needles_e entry)")
    case None
    then show ?thesis
      by (simp add: unfold find_append_cases find_rule_needles tail)
  next
    case (Some needle)
    then have "needle \<in> set (needles_e entry)"
      using find_Some_holds by fastforce
    with Cons.prems have "needle \<noteq> []" by auto
    with Some show ?thesis
      by (simp add: unfold find_append_cases find_rule_needles)
  qed
qed

lemma categoryFor_follows_chain:
  assumes "\<forall>e \<in> set (ruleEntries m). [] \<notin> set (needles_e e)"
  shows "categoryFor m t = spec_categoryFor m t"
  unfolding categoryFor_def spec_categoryFor_def
  by (simp add: matchRules_first_needle [OF assms] find_split_pair
      split: option.splits)

lemma normalizeText_empty: "normalizeText [] = []"
  by (simp add: normalizeText_def toLowerCase_def trim_def collapseSpaces_def)

lemma normalizeText_coles: "normalizeText ''coles'' = ''coles''"
  by code_simp

lemma toUpperCase_empty: "toUpperCase [] = []"
  by (simp add: toUpperCase_def)

lemma empty_needle_matcher:
  "buildCategoryMatcher emptyNeedleRules noOverrides =
     \<lparr> overridesById = [], narrativeOverrides = [],
       ruleEntries = [\<lparr> category_e = ''Groceries'', needles_e = [[], ''coles''] \<rparr>] \<rparr>"
  by (simp add: buildCategoryMatcher_def emptyNeedleRules_def noOverrides_def
      normalizeText_empty normalizeText_coles)


text \<open>
  \<^bold>\<open>C1\<close>. The engine is to return the first match of the chain: id override, narrative
  override, first rule needle (categories, then needles, in the order of declaration) that
  the normalized narrative contains, credit, \<open>INT\<close>, default. The loop over the rules tests
  the needle it found for truthiness, so a needle that is empty once normalized, although
  every narrative contains it, counts as no match, and the loop leaves the category
  without trying its other needles. Under the rules \<open>Groceries: ["", "coles"]\<close> the debit at
  Coles falls through to \<open>Uncategorized\<close>, where the chain of the specification gives \<open>Groceries\<close>.
  (\<open>categoryFor_follows_chain\<close> above: with no such needle the engine and the chain agree.)
\<close>

theorem empty_needle_hides_category:
  "categoryFor (buildCategoryMatcher emptyNeedleRules noOverrides) colesDebit =
     \<lparr> category_c = ''Uncategorized'', reason_c = ''fallback:uncategorized'' \<rparr>
   \<and> spec_categoryFor (buildCategoryMatcher emptyNeedleRules noOverrides) colesDebit =
     \<lparr> category_c = ''Groceries'', reason_c = ''rule:'' \<rparr>"
  by (simp add: empty_needle_matcher categoryFor_def spec_categoryFor_def colesDebit_def
      ruleNeedles_def toUpperCase_empty)






subsection \<open>Spend flow-graph: the clock\<close>





subsection \<open>Income and outflow aggregator: the empty list\<close>

lemma floor_half: "\<lfloor>1 / 2 :: rat\<rfloor> = 0"
  by (simp add: floor_eq_iff)

lemma round2_zero: "round2 0 = 0"
  by (simp add: round2_def cents_def floor_half)

text \<open>
  \<^bold>\<open>C10\<close>. On the empty transaction list the aggregator returns one node, the hub
  \<open>Total Income\<close> with value 0 and percent 1, no link, the three totals 0, no income and no
  category statistics, and the counts 0. The node list is not empty.
\<close>

theorem buildVisualization_empty:
  "buildVisualization formatCurrency [] currency =
     \<lparr> sankey =
         \<lparr> nodes_v = [\<lparr> name_v = ''Total Income'', kind_v = TotalNode, color_v = ''#7f8b98'',
                        value_v = 0, percent_v = Some 1, labelMain_v = Some ''Total Income'',
                        labelSub_v = Some (formatCurrency 0 currency) \<rparr>],
           links_v = [] \<rparr>,
       totalIncome = 0, totalSpend = 0, savings = 0, spendCount = 0,
       incomeStats = [], categoryStats = [], outflowCount = 0 \<rparr>"
  by (simp add: buildVisualization_def compactIncomeSources_def incomeTransactions_def sumIncome_def
      incomeStatsOf_def outflowTransactions_def sumSpend_def categoryStatsOf_def outflowStatsOf_def
      vizNodes_def pushViz_def totalNode_def vizLinks_def round2_zero Let_def)

theorem buildVisualization_empty_witness:
  "length (nodes_v (sankey (buildVisualization (\<lambda>v c. c) [] ''AUD''))) = 1
   \<and> buildVisualization (\<lambda>v c. c) [] ''AUD'' \<noteq> EMPTY_VIZ"
  by (simp add: buildVisualization_empty EMPTY_VIZ_def)

subsection \<open>Merchant inference\<close>












text \<open>With no pattern matching, a double space inside the narrative is still collapsed.\<close>

lemma inferMerchant_collapses_inner_space:
  "inferMerchant ''COLES  0931'' = ''COLES 0931'' \<and> trim ''COLES  0931'' = ''COLES  0931''"
  by code_simp

subsection \<open>Transaction normalizer: the amounts\<close>

lemma baseTransaction_amounts:
  assumes "baseTransaction index row = Inr b"
  shows "debitAmount b = parseMoney (DebitAmount row)"
    and "creditAmount b = parseMoney (CreditAmount row)"
    and "amount b = (if debitAmount b > 0 then debitAmount b
                     else if creditAmount b > 0 then - creditAmount b else 0)"
    and "direction b = (if debitAmount b > 0 then Debit
                        else if creditAmount b > 0 then Credit else Neutral)"
  using assms by (auto simp: baseTransaction_def Let_def split: sum.splits)

lemma normalizeFrom_rows:
  "normalizeFrom index rows catFor = Inr ts \<Longrightarrow>
   length ts = length rows \<and>
   (\<forall>k < length rows. \<exists>b. baseTransaction (index + k) (rows ! k) = Inr b
        \<and> ts ! k = BaseTransaction.extend b
             \<lparr> category = category_c (catFor b), categoryReason = reason_c (catFor b) \<rparr>)"
proof (induction rows arbitrary: index ts)
  case Nil
  then show ?case by simp
next
  case (Cons row rows)
  from Cons.prems obtain b ts' where
    b: "baseTransaction index row = Inr b" and
    rest: "normalizeFrom (Suc index) rows catFor = Inr ts'" and
    ts: "ts = BaseTransaction.extend b
             \<lparr> category = category_c (catFor b), categoryReason = reason_c (catFor b) \<rparr> # ts'"
    by (auto split: sum.splits)
  from Cons.IH [OF rest] have len: "length ts' = length rows" and
    nth: "\<And>k. k < length rows \<Longrightarrow> \<exists>b. baseTransaction (Suc index + k) (rows ! k) = Inr b
        \<and> ts' ! k = BaseTransaction.extend b
             \<lparr> category = category_c (catFor b), categoryReason = reason_c (catFor b) \<rparr>"
    by auto
  show ?case
  proof (intro conjI allI impI)
    show "length ts = length (row # rows)" using ts len by simp
  next
    fix k assume "k < length (row # rows)"
    then show "\<exists>b. baseTransaction (index + k) ((row # rows) ! k) = Inr b
        \<and> ts ! k = BaseTransaction.extend b
             \<lparr> category = category_c (catFor b), categoryReason = reason_c (catFor b) \<rparr>"
      using b ts nth [of "k - 1"] by (cases k) auto
  qed
qed

text \<open>
  \<^bold>\<open>C4\<close>, amended. In every transaction the normalizer produces, \<open>debitAmount\<close> and
  \<open>creditAmount\<close> are the parsed values of the two amount columns of its row, as they are:
  nothing makes them non-negative or clears one of them. The derived fields take the debit
  first: when \<open>debitAmount\<close> is positive, \<open>amount\<close> is the debit and \<open>direction\<close> is debit,
  whatever the credit; otherwise, when \<open>creditAmount\<close> is positive, \<open>amount\<close> is its negative and
  \<open>direction\<close> is credit; otherwise \<open>amount\<close> is 0 and \<open>direction\<close> is neutral.
\<close>

theorem normalized_amounts:
  assumes "normalizeTransactions rows catFor = Inr ts"
  shows "length ts = length rows \<and>
         (\<forall>k < length rows.
           debitAmount (ts ! k) = parseMoney (DebitAmount (rows ! k))
         \<and> creditAmount (ts ! k) = parseMoney (CreditAmount (rows ! k))
         \<and> amount (ts ! k) =
             (if debitAmount (ts ! k) > 0 then debitAmount (ts ! k)
              else if creditAmount (ts ! k) > 0 then - creditAmount (ts ! k) else 0)
         \<and> direction (ts ! k) =
             (if debitAmount (ts ! k) > 0 then Debit
              else if creditAmount (ts ! k) > 0 then Credit else Neutral))"
proof -
  from assms have n: "normalizeFrom 0 rows catFor = Inr ts"
    by (simp add: normalizeTransactions_def)
  have "debitAmount (ts ! k) = parseMoney (DebitAmount (rows ! k))
         \<and> creditAmount (ts ! k) = parseMoney (CreditAmount (rows ! k))
         \<and> amount (ts ! k) =
             (if debitAmount (ts ! k) > 0 then debitAmount (ts ! k)
              else if creditAmount (ts ! k) > 0 then - creditAmount (ts ! k) else 0)
         \<and> direction (ts ! k) =
             (if debitAmount (ts ! k) > 0 then Debit
              else if creditAmount (ts ! k) > 0 then Credit else Neutral)"
    if "k < length rows" for k
  proof -
    from that normalizeFrom_rows [OF n] obtain b where
      b: "baseTransaction k (rows ! k) = Inr b" and
      t: "ts ! k = BaseTransaction.extend b
             \<lparr> category = category_c (catFor b), categoryReason = reason_c (catFor b) \<rparr>"
      by auto
    have sel: "debitAmount (ts ! k) = debitAmount b" "creditAmount (ts ! k) = creditAmount b"
      "amount (ts ! k) = amount b" "direction (ts ! k) = direction b"
      by (simp_all add: t BaseTransaction.defs)
    show ?thesis
      unfolding sel using baseTransaction_amounts [OF b] by simp
  qed
  with normalizeFrom_rows [OF n] show ?thesis by simp
qed

lemma parseMoney_10: "parseMoney (Some ''10'') = 10"
  by code_simp

lemma parseMoney_5: "parseMoney (Some ''5'') = 5"
  by code_simp

lemma parseDate_example: "parseDate ''05/03/2026'' = Inr ''2026-03-05''"
  by code_simp

lemma bothAmounts_normalized:
  "\<exists>t. normalizeTransactions [bothAmountsRow] catFor = Inr [t]"
  by (simp add: normalizeTransactions_def baseTransaction_def bothAmountsRow_def Let_def
      parseDate_example)

lemma bothAmounts_fields:
  assumes "normalizeTransactions [bothAmountsRow] catFor = Inr [t]"
  shows "debitAmount t = 10 \<and> creditAmount t = 5"
proof -
  from assms have "normalizeFrom 0 [bothAmountsRow] catFor = Inr [t]"
    by (simp add: normalizeTransactions_def)
  from normalizeFrom_rows [OF this] obtain b where
    b: "baseTransaction 0 bothAmountsRow = Inr b" and
    t: "t = BaseTransaction.extend b
             \<lparr> category = category_c (catFor b), categoryReason = reason_c (catFor b) \<rparr>"
    by auto
  have "debitAmount t = debitAmount b" "creditAmount t = creditAmount b"
    by (simp_all add: t BaseTransaction.defs)
  with baseTransaction_amounts(1,2) [OF b] show ?thesis
    by (simp add: bothAmountsRow_def parseMoney_10 parseMoney_5)
qed

theorem normalized_amounts_witness:
  "\<exists>ts. normalizeTransactions [bothAmountsRow] (categoryFor (buildCategoryMatcher groceryRules noOverrides))
          = Inr ts
        \<and> length ts = 1 \<and> amount (ts ! 0) = 10 \<and> direction (ts ! 0) = Debit"
proof -
  obtain t where
    h: "normalizeTransactions [bothAmountsRow] (categoryFor (buildCategoryMatcher groceryRules noOverrides))
          = Inr [t]"
    using bothAmounts_normalized by blast
  from normalized_amounts [OF h] have
    "debitAmount ([t] ! 0) = parseMoney (DebitAmount ([bothAmountsRow] ! 0))"
    "amount ([t] ! 0) =
       (if debitAmount ([t] ! 0) > 0 then debitAmount ([t] ! 0)
        else if creditAmount ([t] ! 0) > 0 then - creditAmount ([t] ! 0) else 0)"
    "direction ([t] ! 0) =
       (if debitAmount ([t] ! 0) > 0 then Debit
        else if creditAmount ([t] ! 0) > 0 then Credit else Neutral)"
    by simp_all
  then have "amount t = 10 \<and> direction t = Debit"
    by (simp add: bothAmountsRow_def parseMoney_10)
  with h show ?thesis by simp
qed

text \<open>The row with a debit of 10 and a credit of 5 keeps both amounts: neither is 0.\<close>

theorem both_amounts_kept_counterexample:
  "\<not> isl (normalizeTransactions [bothAmountsRow] (categoryFor (buildCategoryMatcher groceryRules noOverrides)))
   \<and> debitAmount (hd (projr (normalizeTransactions [bothAmountsRow]
          (categoryFor (buildCategoryMatcher groceryRules noOverrides))))) = 10
   \<and> creditAmount (hd (projr (normalizeTransactions [bothAmountsRow]
          (categoryFor (buildCategoryMatcher groceryRules noOverrides))))) = 5"
proof -
  obtain t where
    h: "normalizeTransactions [bothAmountsRow] (categoryFor (buildCategoryMatcher groceryRules noOverrides))
          = Inr [t]"
    using bothAmounts_normalized by blast
  from bothAmounts_fields [OF h] show ?thesis
    by (simp add: h)
qed

text \<open>A minus sign in the column makes the stored amount negative.\<close>

lemma parseMoney_negative: "parseMoney (Some ''-5.00'') = - 5"
  by code_simp

subsection \<open>Date and money parsing\<close>



































text \<open>A malformed amount with a numeric prefix is not coerced to 0.\<close>

lemma parseMoney_numeric_prefix: "parseMoney (Some ''12abc'') = 12"
  by code_simp

subsection \<open>Spend flow-graph: the nodes\<close>

lemma map_of_mapSet: "map_of (mapSet k v m) = (map_of m)(k \<mapsto> v)"
  by (induction m) (auto simp: fun_eq_iff)

lemma fst_in_keys: "(k, v) \<in> set m \<Longrightarrow> k \<in> fst ` set m"
  by force

lemma keys_mapSet:
  "map fst (mapSet k v m) = (if k \<in> set (map fst m) then map fst m else map fst m @ [k])"
  by (induction m) (auto simp: fst_in_keys)


lemma mapSet_twice: "mapSet k v (mapSet k w m) = mapSet k v m"
  by (induction m) auto

lemma set_firstSeen: "set (firstSeen xs) = set xs"
  by (induction xs) auto


lemma firstSeen_snoc:
  "firstSeen (xs @ [x]) = (if x \<in> set xs then firstSeen xs else firstSeen xs @ [x])"
  by (induction xs) auto


lemma addTotals_fst:
  "fst (addTotals st t) = mapSet (category t) (getOr0 (fst st) (category t) + amount t) (fst st)"
  by (auto simp: addTotals_def Let_def map_of_mapSet split: option.splits)

lemma addTotals_snd:
  "snd (addTotals st t) =
     (let ms = (case map_of (snd st) (category t) of None \<Rightarrow> [] | Some ms \<Rightarrow> ms)
      in mapSet (category t) (mapSet (merchant t) (getOr0 ms (merchant t) + amount t) ms) (snd st))"
  by (auto simp: addTotals_def Let_def map_of_mapSet mapSet_twice split: option.splits)

lemma totals_keys:
  "map fst (fst (foldl addTotals ([], []) sp)) = firstSeen (map category sp)
   \<and> map fst (snd (foldl addTotals ([], []) sp)) = firstSeen (map category sp)
   \<and> (\<forall>c ms. map_of (snd (foldl addTotals ([], []) sp)) c = Some ms \<longrightarrow>
         map fst ms = firstSeen (map merchant (filter (\<lambda>t. category t = c) sp)))"
proof (induction sp rule: rev_induct)
  case Nil
  show ?case by simp
next
  case (snoc t sp)
  define st where "st = foldl addTotals ([], []) sp"
  from snoc have k1: "map fst (fst st) = firstSeen (map category sp)"
    and k2: "map fst (snd st) = firstSeen (map category sp)"
    and k3: "\<And>c ms. map_of (snd st) c = Some ms \<Longrightarrow>
         map fst ms = firstSeen (map merchant (filter (\<lambda>t. category t = c) sp))"
    by (auto simp: st_def)
  have step: "foldl addTotals ([], []) (sp @ [t]) = addTotals st t"
    by (simp add: st_def)
  define ms0 where "ms0 = (case map_of (snd st) (category t) of None \<Rightarrow> [] | Some ms \<Rightarrow> ms)"
  have ms0: "map fst ms0 = firstSeen (map merchant (filter (\<lambda>u. category u = category t) sp))"
  proof (cases "map_of (snd st) (category t)")
    case None
    then have "category t \<notin> set (map fst (snd st))"
      by (simp add: map_of_eq_None_iff)
    then have "category t \<notin> set (map category sp)"
      by (simp add: k2 set_firstSeen)
    then have "\<forall>u \<in> set sp. category u \<noteq> category t"
      by (metis image_eqI set_map)
    then have "filter (\<lambda>u. category u = category t) sp = []"
      by (simp add: filter_empty_conv)
    with None show ?thesis by (simp add: ms0_def)
  next
    case (Some ms)
    with k3 show ?thesis by (simp add: ms0_def)
  qed
  have a: "map fst (fst (addTotals st t)) = firstSeen (map category (sp @ [t]))"
    by (simp add: addTotals_fst keys_mapSet k1 set_firstSeen firstSeen_snoc)
  have b: "map fst (snd (addTotals st t)) = firstSeen (map category (sp @ [t]))"
    by (simp add: addTotals_snd Let_def keys_mapSet k2 set_firstSeen firstSeen_snoc)
  have c: "map fst ms = firstSeen (map merchant (filter (\<lambda>u. category u = c) (sp @ [t])))"
    if "map_of (snd (addTotals st t)) c = Some ms" for c ms
  proof (cases "c = category t")
    case True
    with that have "ms = mapSet (merchant t) (getOr0 ms0 (merchant t) + amount t) ms0"
      by (simp add: addTotals_snd Let_def map_of_mapSet ms0_def)
    then have "map fst ms = (if merchant t \<in> set (map fst ms0) then map fst ms0
                             else map fst ms0 @ [merchant t])"
      by (simp add: keys_mapSet)
    with True show ?thesis
      by (simp add: ms0 set_firstSeen firstSeen_snoc)
  next
    case False
    with that have "map_of (snd st) c = Some ms"
      by (simp add: addTotals_snd Let_def map_of_mapSet)
    with k3 False show ?thesis by simp
  qed
  from a b c show ?case unfolding step by blast
qed






lemma foldl_inner:
  "foldl (\<lambda>st (c, merchants). foldl pushNewNode st (map fst merchants)) st mt =
   foldl pushNewNode st (concat (map (\<lambda>(c, ms). map fst ms) mt))"
  by (induction mt arbitrary: st) auto

lemma insort_key_map: "map f (insort_key f x xs) = insort (f x) (map f xs)"
  by (induction xs) auto

lemma map_sort_key: "map f (sort_key f xs) = sort (map f xs)"
  by (induction xs) (simp_all add: insort_key_map)






subsection \<open>Spend flow-graph: conservation\<close>











lemma pushNode_other:
  "k \<notin> set names \<Longrightarrow> map_of (snd (foldl pushNode st names)) k = map_of (snd st) k"
  by (induction names arbitrary: st) (auto simp: pushNode_def map_of_mapSet)

lemma pushNode_index:
  "k \<in> set names \<Longrightarrow> \<exists>i \<ge> length (fst st). map_of (snd (foldl pushNode st names)) k = Some i"
proof (induction names arbitrary: st)
  case Nil
  then show ?case by simp
next
  case (Cons n names)
  show ?case
  proof (cases "k \<in> set names")
    case True
    from Cons.IH [OF True, of "pushNode st n"] show ?thesis
      by (auto simp: pushNode_def)
  next
    case False
    with Cons.prems have "k = n" by simp
    with False show ?thesis
      by (simp add: pushNode_other) (simp add: pushNode_def map_of_mapSet)
  qed
qed

lemma pushNewNode_kept:
  "map_of (snd st) k = Some i \<Longrightarrow> map_of (snd (foldl pushNewNode st names)) k = Some i"
proof (induction names arbitrary: st)
  case Nil
  then show ?case by simp
next
  case (Cons n names)
  have "map_of (snd (pushNewNode st n)) k = Some i"
    using Cons.prems by (auto simp: pushNewNode_def pushNode_def map_of_mapSet)
  from Cons.IH [OF this] show ?case by simp
qed

lemma buildNodes_root:
  assumes "''Total Spend'' \<notin> fst ` set ct"
  shows "map_of (snd (buildNodes ct mt)) ''Total Spend'' = Some 0"
  unfolding buildNodes_def foldl_inner
  using assms by (intro pushNewNode_kept) (simp add: pushNode_other sortByName_def map_sort_key)

lemma buildNodes_category:
  assumes "c \<in> fst ` set ct"
  shows "\<exists>i \<ge> 1. map_of (snd (buildNodes ct mt)) c = Some i"
proof -
  have "c \<in> set (map fst (sortByName ct))"
    using assms by (simp add: sortByName_def map_sort_key)
  from pushNode_index [OF this, of "([\<lparr> name_n = ''Total Spend'' \<rparr>], [(''Total Spend'', 0)])"]
  obtain i where "i \<ge> 1"
    "map_of (snd (foldl pushNode ([\<lparr> name_n = ''Total Spend'' \<rparr>], [(''Total Spend'', 0)])
       (map fst (sortByName ct)))) c = Some i"
    by auto
  then show ?thesis
    unfolding buildNodes_def foldl_inner using pushNewNode_kept by blast
qed

lemma merchantLinks_source: "l \<in> set (merchantLinks idx mt c tgt) \<Longrightarrow> source_l l = tgt"
  by (auto simp: merchantLinks_def split: option.splits)

lemma root_links_filter:
  assumes "map_of idx ''Total Spend'' = Some 0"
    and "\<forall>e \<in> set es. \<exists>i \<ge> 1. map_of idx (fst e) = Some i"
  shows "filter (\<lambda>l. source_l l = 0)
           (concat (map (\<lambda>e. case categoryLink idx e of
                                None \<Rightarrow> []
                              | Some l \<Rightarrow> l # merchantLinks idx mt (fst e) (target_l l)) es))
         = List.map_filter (categoryLink idx) es"
  using assms(2)
proof (induction es)
  case Nil
  show ?case by (simp add: List.map_filter_simps)
next
  case (Cons e es)
  then obtain i where i: "i \<ge> 1" "map_of idx (fst e) = Some i" by auto
  have link: "categoryLink idx e = Some \<lparr> source_l = 0, target_l = i, value_l = round2 (snd e) \<rparr>"
    by (simp add: categoryLink_def assms(1) i)
  have "filter (\<lambda>l. source_l l = 0) (merchantLinks idx mt (fst e) i) = []"
    using i(1) merchantLinks_source [of _ idx mt "fst e" i] by (auto simp: filter_empty_conv)
  with Cons show ?case
    by (simp add: link List.map_filter_simps)
qed

text \<open>Where no spend category bears the name of the root, the links from the root to the
  categories are the links of the artifact that leave node 0. (A category named
  \<open>Total Spend\<close> takes the entry of the root in the index of names; the links of the
  categories then leave its node, with the same values.)\<close>

lemma category_links_are_root_links:
  assumes "''Total Spend'' \<notin> category ` set (spendTransactions transactions)"
  shows "categoryLinksOf transactions =
           filter (\<lambda>l. source_l l = 0) (links_s (buildSankeyData now transactions))"
proof -
  define sp where "sp = spendTransactions transactions"
  define ct where "ct = fst (totalsOf sp)"
  define mt where "mt = snd (totalsOf sp)"
  have "map fst ct = firstSeen (map category sp)"
    using totals_keys [of sp] by (simp add: ct_def totalsOf_def)
  then have "set (map fst ct) = set (map category sp)"
    by (simp add: set_firstSeen)
  then have keys: "fst ` set ct = category ` set sp" by simp
  with assms have root: "map_of (snd (buildNodes ct mt)) ''Total Spend'' = Some 0"
    by (intro buildNodes_root) (simp add: sp_def)
  have cats: "\<forall>e \<in> set (sortByName ct). \<exists>i \<ge> 1. map_of (snd (buildNodes ct mt)) (fst e) = Some i"
    using buildNodes_category [of _ ct mt] by (auto simp: sortByName_def)
  have A: "categoryLinksOf transactions =
      List.map_filter (categoryLink (snd (buildNodes ct mt))) (sortByName ct)"
    by (simp add: categoryLinksOf_def Let_def sp_def ct_def mt_def)
  have B: "links_s (buildSankeyData now transactions) =
      concat (map (\<lambda>e. case categoryLink (snd (buildNodes ct mt)) e of
                           None \<Rightarrow> []
                         | Some l \<Rightarrow> l # merchantLinks (snd (buildNodes ct mt)) mt (fst e) (target_l l))
                (sortByName ct))"
    unfolding buildSankeyData_def buildLinks_def Let_def sp_def ct_def mt_def by simp
  show ?thesis
    unfolding A B by (rule root_links_filter [OF root cats, symmetric])
qed


subsection \<open>Income and outflow aggregator: savings and percentages\<close>


























end
